theory Spec2Isabelle
  imports Complex_Main "HOL-Library.Multiset"
begin

section \<open>Numbers, vectors and matrices\<close>

text \<open>
  The program (\<^verbatim>\<open>apps/taillight2/main.cpp\<close>) computes with C++ \<^verbatim>\<open>float\<close> and
  \<^verbatim>\<open>int\<close>. A finite \<^verbatim>\<open>float\<close> is modelled by the real number it denotes and every
  arithmetic operation by its exact real counterpart: rounding is not modelled. The
  only way exact arithmetic on finite values leaves the finite values is a division by
  zero, which IEEE arithmetic answers with an infinity or a NaN; such a result is the
  value \<open>NonFinite\<close> below, never HOL's \<open>x / 0 = 0\<close>.

  A fixed-size Eigen matrix is a tuple of rows; a \<open>3 \<times> N\<close> or \<open>2 \<times> N\<close> matrix of points
  is the list of its columns.
\<close>

datatype 'a ieee = Finite 'a | NonFinite

type_synonym vec2 = "real \<times> real"
type_synonym vec3 = "real \<times> real \<times> real"
type_synonym vec4 = "real \<times> real \<times> real \<times> real"
type_synonym mat3 = "vec3 \<times> vec3 \<times> vec3"
type_synonym mat34 = "vec4 \<times> vec4 \<times> vec4"
type_synonym mat4 = "vec4 \<times> vec4 \<times> vec4 \<times> vec4"

fun dot3 :: "vec3 \<Rightarrow> vec3 \<Rightarrow> real" where
  "dot3 (a0, a1, a2) (b0, b1, b2) = a0 * b0 + a1 * b1 + a2 * b2"

fun dot4 :: "vec4 \<Rightarrow> vec4 \<Rightarrow> real" where
  "dot4 (a0, a1, a2, a3) (b0, b1, b2, b3) = a0 * b0 + a1 * b1 + a2 * b2 + a3 * b3"

fun mat3_mul_vec :: "mat3 \<Rightarrow> vec3 \<Rightarrow> vec3" where
  "mat3_mul_vec (r0, r1, r2) v = (dot3 r0 v, dot3 r1 v, dot3 r2 v)"

fun mat34_mul_vec :: "mat34 \<Rightarrow> vec4 \<Rightarrow> vec3" where
  "mat34_mul_vec (r0, r1, r2) v = (dot4 r0 v, dot4 r1 v, dot4 r2 v)"


fun cols34 :: "mat34 \<Rightarrow> vec3 \<times> vec3 \<times> vec3 \<times> vec3" where
  "cols34 ((a00, a01, a02, a03), (a10, a11, a12, a13), (a20, a21, a22, a23)) =
     ((a00, a10, a20), (a01, a11, a21), (a02, a12, a22), (a03, a13, a23))"


fun row3_mul_mat34 :: "vec3 \<Rightarrow> vec3 \<times> vec3 \<times> vec3 \<times> vec3 \<Rightarrow> vec4" where
  "row3_mul_mat34 r (c0, c1, c2, c3) = (dot3 r c0, dot3 r c1, dot3 r c2, dot3 r c3)"

fun mat3_mul_mat34 :: "mat3 \<Rightarrow> mat34 \<Rightarrow> mat34" where
  "mat3_mul_mat34 (k0, k1, k2) M =
     (row3_mul_mat34 k0 (cols34 M), row3_mul_mat34 k1 (cols34 M), row3_mul_mat34 k2 (cols34 M))"



fun topRows3 :: "mat4 \<Rightarrow> mat34" where
  "topRows3 (r0, r1, r2, r3) = (r0, r1, r2)"

subsection \<open>Eigen's inverse of a fixed-size \<open>4 \<times> 4\<close> matrix\<close>

text \<open>
  \<^verbatim>\<open>MatrixBase::inverse()\<close> of a fixed-size \<open>4 \<times> 4\<close> matrix is Eigen's
  \<^verbatim>\<open>compute_inverse_size4\<close>: the transposed matrix of cofactors, each cofactor a sum of
  three \<^verbatim>\<open>general_det3_helper\<close> terms over cyclically shifted indices, divided by the
  determinant \<^verbatim>\<open>(matrix.col(0).cwiseProduct(result.row(0).transpose())).sum()\<close>. Eigen
  makes no invertibility check here: for a singular matrix the division is by zero and
  every coefficient of the result is an infinity or a NaN.
\<close>

fun vec4_coeff :: "vec4 \<Rightarrow> nat \<Rightarrow> real" where
  "vec4_coeff (a0, a1, a2, a3) j = [a0, a1, a2, a3] ! j"

fun coeff4 :: "mat4 \<Rightarrow> nat \<Rightarrow> nat \<Rightarrow> real" where
  "coeff4 (r0, r1, r2, r3) i j = vec4_coeff ([r0, r1, r2, r3] ! i) j"

definition general_det3_helper ::
  "mat4 \<Rightarrow> nat \<Rightarrow> nat \<Rightarrow> nat \<Rightarrow> nat \<Rightarrow> nat \<Rightarrow> nat \<Rightarrow> real" where
  "general_det3_helper m i1 i2 i3 j1 j2 j3 =
     coeff4 m i1 j1 * (coeff4 m i2 j2 * coeff4 m i3 j3 - coeff4 m i2 j3 * coeff4 m i3 j2)"

definition cofactor_4x4 :: "mat4 \<Rightarrow> nat \<Rightarrow> nat \<Rightarrow> real" where
  "cofactor_4x4 m i j =
     (let i1 = (i + 1) mod 4; i2 = (i + 2) mod 4; i3 = (i + 3) mod 4;
          j1 = (j + 1) mod 4; j2 = (j + 2) mod 4; j3 = (j + 3) mod 4
      in general_det3_helper m i1 i2 i3 j1 j2 j3
       + general_det3_helper m i2 i3 i1 j1 j2 j3
       + general_det3_helper m i3 i1 i2 j1 j2 j3)"

definition cofactors4 :: "mat4 \<Rightarrow> mat4" where
  "cofactors4 m =
     ((  cofactor_4x4 m 0 0, - cofactor_4x4 m 1 0,   cofactor_4x4 m 2 0, - cofactor_4x4 m 3 0),
      (- cofactor_4x4 m 0 1,   cofactor_4x4 m 1 1, - cofactor_4x4 m 2 1,   cofactor_4x4 m 3 1),
      (  cofactor_4x4 m 0 2, - cofactor_4x4 m 1 2,   cofactor_4x4 m 2 2, - cofactor_4x4 m 3 2),
      (- cofactor_4x4 m 0 3,   cofactor_4x4 m 1 3, - cofactor_4x4 m 2 3,   cofactor_4x4 m 3 3))"

definition det4 :: "mat4 \<Rightarrow> real" where
  "det4 m = (\<Sum>i\<leftarrow>[0, 1, 2, 3]. coeff4 m i 0 * coeff4 (cofactors4 m) 0 i)"

fun vec4_div :: "vec4 \<Rightarrow> real \<Rightarrow> vec4" where
  "vec4_div (a0, a1, a2, a3) d = (a0 / d, a1 / d, a2 / d, a3 / d)"

fun mat4_div :: "mat4 \<Rightarrow> real \<Rightarrow> mat4" where
  "mat4_div (r0, r1, r2, r3) d = (vec4_div r0 d, vec4_div r1 d, vec4_div r2 d, vec4_div r3 d)"

definition inverse4 :: "mat4 \<Rightarrow> mat4 ieee" where
  "inverse4 m = (if det4 m = 0 then NonFinite else Finite (mat4_div (cofactors4 m) (det4 m)))"

section \<open>Calibration\<close>

text \<open>
  \<^verbatim>\<open>CalibParams\<close> holds three static constants. \<open>RT\<close> and \<open>K\<close> are literals; \<open>P\<close> is
  initialised by \<^verbatim>\<open>K * RT.inverse().topRows(3)\<close>. The initialiser is written here as a
  function of \<open>K\<close> and \<open>RT\<close>, and the constant \<open>P\<close> is its value at the two literals.
\<close>

definition CalibParams_RT :: mat4 where
  "CalibParams_RT =
     ((- 0.005317, 0.003402, 0.999980, 1.624150),
      (- 0.999920, - 0.011526, - 0.005277, 0.296660),
      (0.011508, - 0.999928, 0.003463, 1.457150),
      (0, 0, 0, 1))"

definition CalibParams_K :: mat3 where
  "CalibParams_K =
     ((819.162645, 0, 640),
      (0, 819.162645, 240),
      (0, 0, 1))"

definition projection_of :: "mat3 \<Rightarrow> mat4 \<Rightarrow> mat34 ieee" where
  "projection_of K RT =
     (case inverse4 RT of
        NonFinite \<Rightarrow> NonFinite
      | Finite RTinv \<Rightarrow> Finite (mat3_mul_mat34 K (topRows3 RTinv)))"

definition CalibParams_P :: "mat34 ieee" where
  "CalibParams_P = projection_of CalibParams_K CalibParams_RT"

section \<open>Track rows and instances\<close>

text \<open>
  One element of \<^verbatim>\<open>eachFrame["objs"]\<close> is a JSON array of nine numbers; the record
  below is that array as its getters read it (\<^verbatim>\<open>[0].get<int>()\<close>, \<^verbatim>\<open>[1].get<int>()\<close>,
  \<^verbatim>\<open>[2..8].get<float>()\<close>). A row that is not such an array makes the JSON library
  throw, which ends the program; such rows are not values of this type.
\<close>

record TrackRow =
  r_classId :: int
  r_trackId :: int
  r_x :: real
  r_y :: real
  r_z :: real
  r_l :: real
  r_w :: real
  r_h :: real
  r_yaw :: real

record Instance =
  mClassId :: int
  mTrackId :: int
  mXyzCenter :: vec3
  mLwh :: vec3
  mYaw :: real
  mCorners3D :: "vec3 list"
  mCorners2D :: "vec2 ieee list"
  mDist :: real

text \<open>
  The comma initialiser of \<^verbatim>\<open>mCorners3D\<close> fills the \<open>3 \<times> 8\<close> matrix row by row; column
  \<open>i\<close> of the matrix is corner \<open>i\<close>.
\<close>

definition fromRows3 :: "real list \<Rightarrow> real list \<Rightarrow> real list \<Rightarrow> vec3 list" where
  "fromRows3 r0 r1 r2 = zip r0 (zip r1 r2)"

definition unitCorners :: "vec3 list" where
  "unitCorners = fromRows3 [-1, -1, -1, -1, 1, 1, 1, 1]
                           [-1, -1, 1, 1, -1, -1, 1, 1]
                           [-1, 1, -1, 1, -1, 1, -1, 1]"

fun cwiseProduct :: "vec3 \<Rightarrow> vec3 \<Rightarrow> vec3" where
  "cwiseProduct (a0, a1, a2) (b0, b1, b2) = (a0 * b0, a1 * b1, a2 * b2)"

fun scale3 :: "real \<Rightarrow> vec3 \<Rightarrow> vec3" where
  "scale3 k (a0, a1, a2) = (k * a0, k * a1, k * a2)"

fun add3 :: "vec3 \<Rightarrow> vec3 \<Rightarrow> vec3" where
  "add3 (a0, a1, a2) (b0, b1, b2) = (a0 + b0, a1 + b1, a2 + b2)"

text \<open>\<^verbatim>\<open>mCorners3D.array().colwise() *= (0.5 * mLwh.array())\<close>\<close>

definition localCorners :: "vec3 \<Rightarrow> vec3 list" where
  "localCorners lwh = map (cwiseProduct (scale3 0.5 lwh)) unitCorners"

text \<open>
  \<^verbatim>\<open>Eigen::AngleAxisf(mYaw, Eigen::Vector3f(0, 0, 1))\<close> as a rotation matrix, and the
  affine map \<^verbatim>\<open>Translation3f(mXyzCenter) * AngleAxisf(...)\<close> applied to one column.
\<close>

definition AngleAxisZ :: "real \<Rightarrow> mat3" where
  "AngleAxisZ a = ((cos a, - sin a, 0), (sin a, cos a, 0), (0, 0, 1))"

definition transform :: "vec3 \<Rightarrow> real \<Rightarrow> vec3 \<Rightarrow> vec3" where
  "transform center a v = add3 (mat3_mul_vec (AngleAxisZ a) v) center"

text \<open>
  \<^verbatim>\<open>(P * mCorners3D.colwise().homogeneous()).colwise().hnormalized()\<close>, one column at a
  time. The perspective divide by \<open>w = 0\<close> gives non-finite coordinates.
\<close>

fun homogeneous :: "vec3 \<Rightarrow> vec4" where
  "homogeneous (a0, a1, a2) = (a0, a1, a2, 1)"

fun hnormalized :: "vec3 \<Rightarrow> vec2 ieee" where
  "hnormalized (a0, a1, w) = (if w = 0 then NonFinite else Finite (a0 / w, a1 / w))"

definition project :: "mat34 ieee \<Rightarrow> vec3 \<Rightarrow> vec2 ieee" where
  "project P c =
     (case P of
        NonFinite \<Rightarrow> NonFinite
      | Finite M \<Rightarrow> hnormalized (mat34_mul_vec M (homogeneous c)))"

text \<open>\<^verbatim>\<open>mCorners3D.topRows(2).colwise().norm().minCoeff()\<close>\<close>

fun norm_xy :: "vec3 \<Rightarrow> real" where
  "norm_xy (a0, a1, a2) = sqrt (a0 * a0 + a1 * a1)"

fun minCoeff :: "real list \<Rightarrow> real" where
  "minCoeff [] = 0"
| "minCoeff (a # as) = foldl min a as"

text \<open>
  The constructor \<^verbatim>\<open>Instance::Instance(const json &inputRow)\<close>, taking the projection
  operator as an argument; the program always passes \<^verbatim>\<open>CalibParams::P\<close>.
  (\<open>minCoeff\<close> is only ever applied to the eight columns of a fixed-size matrix; its
  value on the empty list is never used.)
\<close>

definition Instance_with :: "mat34 ieee \<Rightarrow> TrackRow \<Rightarrow> Instance" where
  "Instance_with P inputRow =
     (let xyzCenter = (r_x inputRow, r_y inputRow, r_z inputRow);
          lwh = (r_l inputRow, r_w inputRow, r_h inputRow);
          yaw = r_yaw inputRow;
          corners3D = map (transform xyzCenter yaw) (localCorners lwh);
          corners2D = map (project P) corners3D
      in \<lparr> mClassId = r_classId inputRow, mTrackId = r_trackId inputRow,
           mXyzCenter = xyzCenter, mLwh = lwh, mYaw = yaw,
           mCorners3D = corners3D, mCorners2D = corners2D,
           mDist = minCoeff (map norm_xy corners3D) \<rparr>)"

definition Instance_new :: "TrackRow \<Rightarrow> Instance" where
  "Instance_new inputRow = Instance_with CalibParams_P inputRow"

text \<open>\<^verbatim>\<open>Instance::isCornersInImage\<close>. For a column with non-finite coordinates the
  conjunction \<^verbatim>\<open>u > 0 && u < imgW\<close> is false whichever of \<open>+\<infinity>\<close>, \<open>-\<infinity>\<close>, NaN the
  coordinate is.\<close>

fun inImage :: "int \<Rightarrow> int \<Rightarrow> vec2 ieee \<Rightarrow> bool" where
  "inImage imgW imgH NonFinite = False"
| "inImage imgW imgH (Finite (u, v)) =
     (u > 0 \<and> u < real_of_int imgW \<and> v > 0 \<and> v < real_of_int imgH)"

definition isCornersInImage :: "Instance \<Rightarrow> int \<Rightarrow> int \<Rightarrow> bool" where
  "isCornersInImage inst imgW imgH =
     (let cornersX = map fst (mCorners3D inst);
          valid = map2 (\<lambda>uv X. inImage imgW imgH uv \<and> X > 2) (mCorners2D inst) cornersX
      in list_all id valid)"

section \<open>The frame loop of \<open>main\<close>\<close>

text \<open>
  The loop over \<^verbatim>\<open>eachFrame["objs"]\<close> with its two \<^verbatim>\<open>continue\<close> statements;
  \<^verbatim>\<open>instVec.emplace_back(eachObj)\<close> appends a newly constructed instance.
  (\<^verbatim>\<open>abs(centerY)\<close> on a \<^verbatim>\<open>float\<close> is read as the floating-point absolute value.)
\<close>

fun collect :: "TrackRow list \<Rightarrow> Instance list \<Rightarrow> Instance list" where
  "collect [] instVec = instVec"
| "collect (eachObj # objs) instVec =
     (let classId = r_classId eachObj;
          centerX = r_x eachObj;
          centerY = r_y eachObj
      in if classId = 2 then collect objs instVec
         else if centerX < 4 \<or> centerX > 40 \<or> \<bar>centerY\<bar> > 10 then collect objs instVec
         else collect objs (instVec @ [Instance_new eachObj]))"

text \<open>
  \<^verbatim>\<open>std::sort\<close> belongs to the C++ standard library. All that the language standard
  promises of its result is that it is a permutation of the range in which no element
  is less (by the comparison) than an earlier one; the relative order of equivalent
  elements is left open. The sort is therefore a relation between the vector before
  and after.
\<close>

definition std_sort :: "('a \<Rightarrow> 'a \<Rightarrow> bool) \<Rightarrow> 'a list \<Rightarrow> 'a list \<Rightarrow> bool" where
  "std_sort cmp xs ys \<longleftrightarrow> mset ys = mset xs \<and> sorted_wrt (\<lambda>a b. \<not> cmp b a) ys"

text \<open>The comparison \<^verbatim>\<open>[](const Instance &lhs, const Instance &rhs)\<close> of the sort.\<close>

definition dist_less :: "Instance \<Rightarrow> Instance \<Rightarrow> bool" where
  "dist_less lhs rhs \<longleftrightarrow> mDist lhs < mDist rhs"

text \<open>\<^verbatim>\<open>instVec.erase(std::remove_if(...), instVec.end())\<close>: the elements that do not
  satisfy the predicate, in their order.\<close>

definition erase_remove_if :: "('a \<Rightarrow> bool) \<Rightarrow> 'a list \<Rightarrow> 'a list" where
  "erase_remove_if pred xs = filter (\<lambda>x. \<not> pred x) xs"

subsection \<open>The mask\<close>

text \<open>
  A single-channel \<^verbatim>\<open>cv::Mat\<close> is its size and its pixel values. \<^verbatim>\<open>cv::convexHull\<close> and
  \<^verbatim>\<open>cv::fillConvexPoly\<close> belong to OpenCV; they are arguments of the model:
  \<open>convexHull\<close> maps the points to the hull polygon, and \<open>filled rows cols poly\<close> is
  the set of pixels of a \<open>rows \<times> cols\<close> image that \<^verbatim>\<open>fillConvexPoly\<close> writes for the
  polygon \<open>poly\<close>. It writes the colour there and leaves every other pixel as it was.
\<close>

type_synonym Point = "int \<times> int"

record Mat =
  m_rows :: int
  m_cols :: int
  m_at :: "Point \<Rightarrow> real"

record opencv =
  convexHull :: "Point list \<Rightarrow> Point list"
  filled :: "int \<Rightarrow> int \<Rightarrow> Point list \<Rightarrow> Point set"

definition zeros :: "int \<Rightarrow> int \<Rightarrow> Mat" where
  "zeros rows cols = \<lparr> m_rows = rows, m_cols = cols, m_at = (\<lambda>p. 0) \<rparr>"

definition fillConvexPoly :: "opencv \<Rightarrow> Mat \<Rightarrow> Point list \<Rightarrow> real \<Rightarrow> Mat" where
  "fillConvexPoly cv img poly color =
     img \<lparr> m_at := (\<lambda>p. if p \<in> filled cv (m_rows img) (m_cols img) poly then color
                        else m_at img p) \<rparr>"

text \<open>\<^verbatim>\<open>static_cast<int>\<close> of a floating-point value truncates towards zero.\<close>

definition static_cast_int :: "real \<Rightarrow> int" where
  "static_cast_int a = (if 0 \<le> a then \<lfloor>a\<rfloor> else \<lceil>a\<rceil>)"

text \<open>
  The points of \<^verbatim>\<open>Instance::getMask\<close>. The conversion of an infinity or a NaN to
  \<^verbatim>\<open>int\<close> is undefined behaviour: the result \<open>None\<close>. (So is the conversion of a
  value beyond the range of \<^verbatim>\<open>int\<close>; the loop of \<open>main\<close> calls \<^verbatim>\<open>getMask\<close> only on
  instances that passed \<open>isCornersInImage\<close>, whose coordinates lie between 0 and the
  size of the image, itself an \<^verbatim>\<open>int\<close>.)
\<close>

fun toPoint :: "vec2 ieee \<Rightarrow> Point option" where
  "toPoint NonFinite = None"
| "toPoint (Finite (u, v)) = Some (static_cast_int (u + 0.5), static_cast_int (v + 0.5))"

definition maskPoints :: "Instance \<Rightarrow> Point list option" where
  "maskPoints inst = those (map toPoint (mCorners2D inst))"

text \<open>
  \<^verbatim>\<open>Instance::getMask\<close> fills with the literal \<^verbatim>\<open>cv::Scalar{1.0}\<close>. The body is written
  with the colour as an argument, and \<open>getMask\<close> is the body at the colour 1 of the
  program. Since every instance writes the same value, the order of the writes cannot
  be read off the mask of the program; it can be read off the same loop run with a
  marker of its own for each instance.
\<close>

definition getMaskWith :: "opencv \<Rightarrow> real \<Rightarrow> Instance \<Rightarrow> Mat \<Rightarrow> Mat option" where
  "getMaskWith cv color inst img =
     (case maskPoints inst of
        None \<Rightarrow> None
      | Some points \<Rightarrow> Some (fillConvexPoly cv img (convexHull cv points) color))"

definition getMask :: "opencv \<Rightarrow> Instance \<Rightarrow> Mat \<Rightarrow> Mat option" where
  "getMask cv inst img = getMaskWith cv 1 inst img"

text \<open>
  The loop \<^verbatim>\<open>for (const auto &eachInst : instVec) eachInst.getMask(mask)\<close>, from the
  first element of the vector to the last; \<open>marker\<close> gives the colour that each
  instance writes, and \<open>getMasks\<close> is the loop of the program, where it is 1 for all.
\<close>

fun getMasksWith :: "opencv \<Rightarrow> (Instance \<Rightarrow> real) \<Rightarrow> Instance list \<Rightarrow> Mat \<Rightarrow> Mat option" where
  "getMasksWith cv marker [] canvas = Some canvas"
| "getMasksWith cv marker (eachInst # instVec) canvas =
     (case getMaskWith cv (marker eachInst) eachInst canvas of
        None \<Rightarrow> None
      | Some canvas' \<Rightarrow> getMasksWith cv marker instVec canvas')"

definition getMasks :: "opencv \<Rightarrow> Instance list \<Rightarrow> Mat \<Rightarrow> Mat option" where
  "getMasks cv instVec canvas = getMasksWith cv (\<lambda>eachInst. 1) instVec canvas"

text \<open>The pixels that \<^verbatim>\<open>getMask\<close> of one instance writes on a \<open>rows \<times> cols\<close> mask.\<close>

definition silhouette :: "opencv \<Rightarrow> int \<Rightarrow> int \<Rightarrow> Instance \<Rightarrow> Point set" where
  "silhouette cv rows cols inst =
     (case maskPoints inst of
        None \<Rightarrow> {}
      | Some points \<Rightarrow> filled cv rows cols (convexHull cv points))"

text \<open>
  One iteration of the frame loop, for the rows \<open>objs\<close> of the frame and an image of
  \<open>cols \<times> rows\<close> pixels: the instance vector after the visibility filter and the mask.
  (Drawing the wireframes changes the image only, which nothing below reads.)
\<close>

inductive frame :: "opencv \<Rightarrow> TrackRow list \<Rightarrow> int \<Rightarrow> int \<Rightarrow> Instance list \<Rightarrow> Mat \<Rightarrow> bool" where
  frameI:
    "std_sort dist_less (collect objs []) sortedVec \<Longrightarrow>
     instVec = erase_remove_if (\<lambda>x. \<not> isCornersInImage x cols rows) sortedVec \<Longrightarrow>
     getMasks cv instVec (zeros rows cols) = Some canvas \<Longrightarrow>
     frame cv objs cols rows instVec canvas"

subsection \<open>Notions of the specification\<close>

text \<open>The centroid of a list of points: their sum divided by their number.\<close>

definition centroid :: "vec3 list \<Rightarrow> vec3" where
  "centroid cs = scale3 (1 / real (length cs)) (foldr add3 cs (0, 0, 0))"

text \<open>The index that the specification gives the corner with signs \<open>(sx, sy, sz)\<close>.\<close>

definition cornerIndex :: "real \<Rightarrow> real \<Rightarrow> real \<Rightarrow> nat" where
  "cornerIndex sx sy sz =
     4 * (if sx > 0 then 1 else 0) + 2 * (if sy > 0 then 1 else 0) + (if sz > 0 then 1 else 0)"

text \<open>
  A sort by distance is stable when, for every distance, the instances at that
  distance come in the same order before and after.
\<close>

definition stable_by_dist :: "Instance list \<Rightarrow> Instance list \<Rightarrow> bool" where
  "stable_by_dist xs ys \<longleftrightarrow>
     list_all (\<lambda>x. filter (\<lambda>y. mDist y = mDist x) ys = filter (\<lambda>y. mDist y = mDist x) xs) xs"


subsection \<open>Concrete rows and frames\<close>

text \<open>
  Rows used to exhibit the behaviour of the program on concrete inputs. With yaw 0 the
  nearest corners of \<open>rowNear\<close> are \<open>(4.8, \<plusminus>1.4)\<close> at distance 5 and those of \<open>rowFar\<close>
  are \<open>(19.2, \<plusminus>5.6)\<close> at distance 20; \<open>rowTwin\<close> is \<open>rowNear\<close> with another track id;
  \<open>rowClose\<close> has corners with forward coordinate 1.5; \<open>rowA\<close> is the box with centre
  \<open>(10, 0, 1)\<close> and extents \<open>(4, 2, 1.5)\<close>.
\<close>

definition rowNear :: TrackRow where
  "rowNear = \<lparr> r_classId = 0, r_trackId = 1, r_x = 6.8, r_y = 0, r_z = 1.5,
               r_l = 4, r_w = 2.8, r_h = 1, r_yaw = 0 \<rparr>"

definition rowFar :: TrackRow where
  "rowFar = \<lparr> r_classId = 0, r_trackId = 2, r_x = 21.2, r_y = 0, r_z = 1.5,
              r_l = 4, r_w = 11.2, r_h = 1, r_yaw = 0 \<rparr>"

definition rowTwin :: TrackRow where
  "rowTwin = rowNear \<lparr> r_trackId := 5 \<rparr>"

definition rowClose :: TrackRow where
  "rowClose = \<lparr> r_classId = 0, r_trackId = 3, r_x = 4, r_y = 0, r_z = 1.5,
                r_l = 5, r_w = 2, r_h = 1, r_yaw = 0 \<rparr>"

definition rowA :: "int \<Rightarrow> int \<Rightarrow> TrackRow" where
  "rowA c t = \<lparr> r_classId = c, r_trackId = t, r_x = 10, r_y = 0, r_z = 1,
                r_l = 4, r_w = 2, r_h = 1.5, r_yaw = 0 \<rparr>"

text \<open>
  A stand-in for the two OpenCV functions, to run concrete frames: the hull is the
  list of points itself and the filled pixels are those of the image inside the
  bounding box of the polygon.
\<close>

definition boxFill :: opencv where
  "boxFill =
     \<lparr> convexHull = (\<lambda>points. points),
       filled = (\<lambda>rows cols poly.
         {(px, py). 0 \<le> px \<and> px < cols \<and> 0 \<le> py \<and> py < rows
            \<and> (\<exists>a \<in> set poly. fst a \<le> px) \<and> (\<exists>a \<in> set poly. px \<le> fst a)
            \<and> (\<exists>a \<in> set poly. snd a \<le> py) \<and> (\<exists>a \<in> set poly. py \<le> snd a)}) \<rparr>"


section \<open>The region-of-interest filter\<close>

lemma collect_append:
  "collect objs instVec =
     instVec @ map Instance_new
       (filter (\<lambda>r. \<not> (r_classId r = 2 \<or> r_x r < 4 \<or> r_x r > 40 \<or> \<bar>r_y r\<bar> > 10)) objs)"
  by (induction objs arbitrary: instVec) (simp_all add: Let_def)

text \<open>
  C3. The loop drops a row exactly when its class id is 2, or its forward coordinate
  is below 4 or above 40, or the absolute value of its lateral coordinate exceeds 10:
  the instance vector built from the rows of a frame is the list of the instances of
  the remaining rows, in their order. A row with \<open>x = 3\<close> is dropped, a row with
  \<open>x = 5\<close>, another class id and \<open>|y| \<le> 10\<close> is kept, and a row with class id 2 is
  dropped wherever it is.
\<close>

theorem roi_filter_characterisation:
  "collect objs [] =
     map Instance_new
       (filter (\<lambda>r. \<not> (r_classId r = 2 \<or> r_x r < 4 \<or> r_x r > 40 \<or> \<bar>r_y r\<bar> > 10)) objs)
   \<and> collect [r\<lparr>r_x := 3\<rparr>] [] = []
   \<and> collect [r\<lparr>r_classId := 2\<rparr>] [] = []
   \<and> collect [\<lparr>r_classId = 0, r_trackId = t, r_x = 5, r_y = 10, r_z = z0,
                r_l = l0, r_w = w0, r_h = h0, r_yaw = a0\<rparr>] [] =
       [Instance_new \<lparr>r_classId = 0, r_trackId = t, r_x = 5, r_y = 10, r_z = z0,
                r_l = l0, r_w = w0, r_h = h0, r_yaw = a0\<rparr>]"
  by (simp add: collect_append)

section \<open>Instance construction\<close>

lemma unitCorners_list:
  "unitCorners =
     [(-1, -1, -1), (-1, -1, 1), (-1, 1, -1), (-1, 1, 1),
      (1, -1, -1), (1, -1, 1), (1, 1, -1), (1, 1, 1)]"
  by (simp add: unitCorners_def fromRows3_def)

lemma localCorners_list:
  "localCorners (l, w, h) =
     [(- (l / 2), - (w / 2), - (h / 2)), (- (l / 2), - (w / 2), h / 2),
      (- (l / 2), w / 2, - (h / 2)), (- (l / 2), w / 2, h / 2),
      (l / 2, - (w / 2), - (h / 2)), (l / 2, - (w / 2), h / 2),
      (l / 2, w / 2, - (h / 2)), (l / 2, w / 2, h / 2)]"
  by (simp add: localCorners_def unitCorners_list)

lemma transform_eq:
  "transform (cx, cy, cz) a (x, y, z) =
     (cos a * x - sin a * y + cx, sin a * x + cos a * y + cy, z + cz)"
  by (simp add: transform_def AngleAxisZ_def)

lemma corners3D_new:
  "mCorners3D (Instance_new r) =
     map (transform (r_x r, r_y r, r_z r) (r_yaw r)) (localCorners (r_l r, r_w r, r_h r))"
  by (simp add: Instance_new_def Instance_with_def Let_def)

lemma corners2D_new:
  "mCorners2D (Instance_new r) = map (project CalibParams_P) (mCorners3D (Instance_new r))"
  by (simp add: Instance_new_def Instance_with_def Let_def)

lemma dist_new:
  "mDist (Instance_new r) = minCoeff (map norm_xy (mCorners3D (Instance_new r)))"
  by (simp add: Instance_new_def Instance_with_def Let_def)

lemma length_corners3D: "length (mCorners3D (Instance_new r)) = 8"
  by (simp add: corners3D_new localCorners_list)

lemma length_corners2D: "length (mCorners2D (Instance_new r)) = 8"
  by (simp add: corners2D_new length_corners3D)

text \<open>
  C1. For every row (any centre, any extents, any yaw) the constructor builds eight
  corners whose centroid is the centre of the row, which is also the stored
  \<open>mXyzCenter\<close>: the eight local offsets cancel in pairs, the rotation is linear, and
  the translation adds the centre to every corner. This is an identity of exact
  arithmetic; the rounding of \<^verbatim>\<open>float\<close> operations is outside the model.
\<close>

theorem centroid_is_center:
  "centroid (mCorners3D (Instance_new r)) = (r_x r, r_y r, r_z r)
   \<and> mXyzCenter (Instance_new r) = (r_x r, r_y r, r_z r)
   \<and> length (mCorners3D (Instance_new r)) = 8"
  apply (simp add: centroid_def corners3D_new localCorners_list transform_eq)
  apply (simp add: Instance_new_def Instance_with_def Let_def)
  done

text \<open>
  C9. The corners in the world frame, the projected corners, the distance and the
  verdict of \<open>isCornersInImage\<close> are the same for a row and for the row with any other
  class id and track id: they are computed from the pose fields and the calibration
  alone.
\<close>

theorem geometry_ignores_ids:
  "mCorners3D (Instance_new (r\<lparr>r_classId := c, r_trackId := t\<rparr>)) = mCorners3D (Instance_new r)
   \<and> mCorners2D (Instance_new (r\<lparr>r_classId := c, r_trackId := t\<rparr>)) = mCorners2D (Instance_new r)
   \<and> mDist (Instance_new (r\<lparr>r_classId := c, r_trackId := t\<rparr>)) = mDist (Instance_new r)
   \<and> isCornersInImage (Instance_new (r\<lparr>r_classId := c, r_trackId := t\<rparr>)) imgW imgH
       = isCornersInImage (Instance_new r) imgW imgH"
  by (simp add: Instance_new_def Instance_with_def Let_def isCornersInImage_def)

section \<open>Sorting by distance\<close>

lemma sorted_by_dist:
  assumes "std_sort dist_less xs ys"
  shows "mset ys = mset xs" and "sorted (map mDist ys)"
proof -
  show "mset ys = mset xs" using assms by (simp add: std_sort_def)
  have "sorted_wrt (\<lambda>a b. \<not> mDist b < mDist a) ys"
    using assms by (simp add: std_sort_def dist_less_def)
  then have "sorted_wrt (\<lambda>a b. mDist a \<le> mDist b) ys"
    by (simp add: not_less)
  then show "sorted (map mDist ys)"
    by (simp add: sorted_map)
qed

lemma filter_key_singleton:
  assumes "distinct (map f xs)" and "k \<in> set xs"
  shows "filter (\<lambda>x. f k = f x) xs = [k]"
  using assms
proof (induction xs)
  case Nil then show ?case by simp
next
  case (Cons a xs)
  show ?case
  proof (cases "a = k")
    case True
    then have "\<forall>x \<in> set xs. f k \<noteq> f x" using Cons.prems by auto
    then have "filter (\<lambda>x. f k = f x) xs = []" by (simp add: filter_empty_conv)
    then show ?thesis using True by simp
  next
    case False
    then have "k \<in> set xs" using Cons.prems by simp
    moreover have "f a \<notin> f ` set xs" using Cons.prems by simp
    then have "f k \<noteq> f a" using \<open>k \<in> set xs\<close> by (metis image_eqI)
    ultimately show ?thesis using Cons by simp
  qed
qed

lemma sort_exists: "std_sort dist_less xs (sort_key mDist xs)"
proof -
  have "sorted (map mDist (sort_key mDist xs))" by (rule sorted_sort_key)
  then have "sorted_wrt (\<lambda>a b. mDist a \<le> mDist b) (sort_key mDist xs)"
    by (simp add: sorted_map)
  then show ?thesis by (simp add: std_sort_def dist_less_def not_less)
qed

section \<open>Visibility, distance and the mask: general facts\<close>

lemma minCoeff_Min: "as \<noteq> [] \<Longrightarrow> minCoeff as = Min (set as)"
proof (cases as)
  case Nil then show "as \<noteq> [] \<Longrightarrow> ?thesis" by simp
next
  case (Cons a bs)
  have "foldl min a bs = fold min bs a"
    by (simp add: foldl_conv_fold min.commute)
  then show ?thesis using Cons Min.set_eq_fold[of a bs] by simp
qed

lemma isCornersInImage_nth:
  assumes "length (mCorners2D inst) = length (mCorners3D inst)"
  shows "isCornersInImage inst imgW imgH \<longleftrightarrow>
     (\<forall>i < length (mCorners3D inst). inImage imgW imgH (mCorners2D inst ! i) \<and> 2 < fst (mCorners3D inst ! i))"
  using assms
  by (auto simp add: isCornersInImage_def Let_def list_all_length)

lemma inImage_iff: "inImage imgW imgH c \<longleftrightarrow>
   (\<exists>u v. c = Finite (u, v) \<and> 0 < u \<and> u < real_of_int imgW \<and> 0 < v \<and> v < real_of_int imgH)"
  by (cases c) auto

lemma those_map_Some:
  "(\<And>x. x \<in> set xs \<Longrightarrow> f x \<noteq> None) \<Longrightarrow> \<exists>ys. those (map f xs) = Some ys"
proof (induction xs)
  case Nil then show ?case by simp
next
  case (Cons a xs)
  then obtain ys where "those (map f xs) = Some ys" by auto
  moreover obtain y where "f a = Some y" using Cons.prems[of a] by auto
  ultimately show ?case by simp
qed

lemma visible_points:
  assumes "isCornersInImage (Instance_new r) imgW imgH"
  shows "\<exists>pts. maskPoints (Instance_new r) = Some pts"
proof -
  have len: "length (mCorners2D (Instance_new r)) = length (mCorners3D (Instance_new r))"
    by (simp add: length_corners2D length_corners3D)
  have "toPoint c \<noteq> None" if "c \<in> set (mCorners2D (Instance_new r))" for c
  proof -
    from that obtain i where "i < length (mCorners2D (Instance_new r))" "c = mCorners2D (Instance_new r) ! i"
      by (auto simp: in_set_conv_nth)
    with assms len have "inImage imgW imgH c"
      by (simp add: isCornersInImage_nth)
    then show ?thesis by (cases c) auto
  qed
  then show ?thesis unfolding maskPoints_def by (rule those_map_Some)
qed

lemma sorted_last_max:
  "sorted (map f ys) \<Longrightarrow> y \<in> set ys \<Longrightarrow> f y \<le> f (last ys)"
proof (induction ys)
  case Nil then show ?case by simp
next
  case (Cons a ys)
  show ?case
  proof (cases "ys = []")
    case True with Cons.prems show ?thesis by simp
  next
    case False
    then have l: "last ys \<in> set ys" by simp
    show ?thesis
    proof (cases "y = a")
      case True
      with Cons.prems l False show ?thesis by auto
    next
      case False
      with Cons \<open>ys \<noteq> []\<close> show ?thesis by auto
    qed
  qed
qed

lemma getMasksWith_at:
  "getMasksWith cv marker insts img = Some canvas \<Longrightarrow>
     m_rows canvas = m_rows img \<and> m_cols canvas = m_cols img \<and>
     m_at canvas p =
       (case filter (\<lambda>i. p \<in> silhouette cv (m_rows img) (m_cols img) i) insts of
          [] \<Rightarrow> m_at img p
        | c # cs \<Rightarrow> marker (last (c # cs)))"
proof (induction insts arbitrary: img)
  case Nil
  then show ?case by simp
next
  case (Cons a insts)
  from Cons.prems obtain pts where pts: "maskPoints a = Some pts"
    and rest: "getMasksWith cv marker insts (fillConvexPoly cv img (convexHull cv pts) (marker a)) = Some canvas"
    by (auto simp: getMaskWith_def split: option.splits)
  note ih = Cons.IH[OF rest]
  have sil: "silhouette cv rows cols a = filled cv rows cols (convexHull cv pts)" for rows cols
    by (simp add: silhouette_def pts)
  show ?case using ih
    by (auto simp: fillConvexPoly_def sil split: list.splits)
qed

lemma getMasksWith_total:
  "(\<And>i. i \<in> set insts \<Longrightarrow> \<exists>pts. maskPoints i = Some pts) \<Longrightarrow>
     \<exists>canvas. getMasksWith cv marker insts img = Some canvas"
proof (induction insts arbitrary: img)
  case Nil then show ?case by simp
next
  case (Cons a insts)
  then obtain pts where "maskPoints a = Some pts" by auto
  moreover have "\<exists>canvas. getMasksWith cv marker insts img' = Some canvas" for img'
    using Cons by simp
  ultimately show ?case by (simp add: getMaskWith_def)
qed

lemma getMasksWith_points:
  "getMasksWith cv marker insts img = Some canvas \<Longrightarrow> i \<in> set insts \<Longrightarrow>
     \<exists>pts. maskPoints i = Some pts"
proof (induction insts arbitrary: img)
  case Nil then show ?case by simp
next
  case (Cons a insts)
  then show ?case
    by (auto simp: getMaskWith_def split: option.splits)
qed

lemma getMasks_at:
  assumes "getMasks cv insts img = Some canvas"
  shows "m_rows canvas = m_rows img" and "m_cols canvas = m_cols img"
    and "m_at canvas p =
        (if \<exists>i\<in>set insts. p \<in> silhouette cv (m_rows img) (m_cols img) i then 1 else m_at img p)"
proof -
  note g = getMasksWith_at[OF assms[unfolded getMasks_def], of p]
  show "m_rows canvas = m_rows img" "m_cols canvas = m_cols img" using g by simp_all
  have "filter (\<lambda>i. p \<in> silhouette cv (m_rows img) (m_cols img) i) insts = [] \<longleftrightarrow>
      \<not> (\<exists>i\<in>set insts. p \<in> silhouette cv (m_rows img) (m_cols img) i)"
    by (simp add: filter_empty_conv)
  then show "m_at canvas p =
        (if \<exists>i\<in>set insts. p \<in> silhouette cv (m_rows img) (m_cols img) i then 1 else m_at img p)"
    using g by (simp split: list.splits)
qed

lemma getMasks_total:
  "(\<And>i. i \<in> set insts \<Longrightarrow> \<exists>pts. maskPoints i = Some pts) \<Longrightarrow> \<exists>canvas. getMasks cv insts img = Some canvas"
  unfolding getMasks_def by (rule getMasksWith_total)

lemma collect_set: "set (collect objs []) \<subseteq> Instance_new ` set objs"
  by (auto simp: collect_append)

lemma frame_total: "\<exists>instVec canvas. frame cv objs cols rows instVec canvas"
proof -
  let ?xs = "collect objs []"
  let ?ys = "sort_key mDist ?xs"
  let ?zs = "erase_remove_if (\<lambda>x. \<not> isCornersInImage x cols rows) ?ys"
  have "\<exists>pts. maskPoints i = Some pts" if "i \<in> set ?zs" for i
  proof -
    from that have "i \<in> set ?xs" and vis: "isCornersInImage i cols rows"
      by (auto simp: erase_remove_if_def)
    then obtain r where "i = Instance_new r" using collect_set by blast
    with vis show ?thesis using visible_points by blast
  qed
  then obtain canvas where "getMasks cv ?zs (zeros rows cols) = Some canvas"
    using getMasks_total by blast
  with sort_exists[of ?xs] have "frame cv objs cols rows ?zs canvas"
    by (intro frameI[where sortedVec = ?ys]) auto
  then show ?thesis by blast
qed

lemma frame_sorted:
  assumes "frame cv objs cols rows instVec canvas"
  shows "sorted (map mDist instVec)"
  using assms
proof cases
  case (frameI sortedVec)
  from sorted_by_dist(2)[OF frameI(1)] show ?thesis
    unfolding frameI(2) erase_remove_if_def by (simp add: sorted_map sorted_wrt_filter)
qed

section \<open>The calibration and the concrete rows, evaluated\<close>

lemma detRT: "det4 CalibParams_RT = 500000244478658513 / 500000000000000000"
  by (simp add: det4_def cofactors4_def
      cofactor_4x4_def general_det3_helper_def Let_def CalibParams_RT_def)

lemma P_value: "CalibParams_P = Finite
  ((317816253759632479435 / 500000244478658513,
    - (411237256364494723535 / 500000244478658513),
    5821550663795229135 / 500000244478658513,
    - (2013332483101826524622637 / 2500001222393292565000)),
   (121391071347336230190 / 500000244478658513,
    - (10708410304779766095 / 1000000488957317026),
    - (818272591175513576805 / 1000000488957317026),
    16024160923497265946499429 / 20000009779146340520000),
   499990323484000000 / 500000244478658513,
   - (2638733480000000 / 500000244478658513),
   1731505791000000 / 500000244478658513,
   - (813799540875717450 / 500000244478658513))"
  apply (simp add: CalibParams_P_def projection_of_def inverse4_def detRT)
  apply (simp add: cofactors4_def
      cofactor_4x4_def general_det3_helper_def Let_def CalibParams_RT_def CalibParams_K_def)
  done

lemma corners3D_Near: "mCorners3D (Instance_new rowNear) =
  [(24 / 5, - (7 / 5), 1), (24 / 5, - (7 / 5), 2), (24 / 5, 7 / 5, 1),
   (24 / 5, 7 / 5, 2), (44 / 5, - (7 / 5), 1), (44 / 5, - (7 / 5), 2),
   (44 / 5, 7 / 5, 1), (44 / 5, 7 / 5, 2)]"
  by (simp add: corners3D_new rowNear_def localCorners_list transform_eq)

lemma corners3D_Far: "mCorners3D (Instance_new rowFar) =
  [(96 / 5, - (28 / 5), 1), (96 / 5, - (28 / 5), 2), (96 / 5, 28 / 5, 1),
   (96 / 5, 28 / 5, 2), (116 / 5, - (28 / 5), 1),
   (116 / 5, - (28 / 5), 2), (116 / 5, 28 / 5, 1), (116 / 5, 28 / 5, 2)]"
  by (simp add: corners3D_new rowFar_def localCorners_list transform_eq)

lemma corners2D_Near: "mCorners2D (Instance_new rowNear) =
  [Finite (8522026154999792192237363 / 7957898722552412750000, 23265630287209384057539429 / 63663189780419302000000),
   Finite (8551133908318768337912363 / 7966556251507412750000, 6900178463699112521439429 / 63732450012059302000000),
   Finite (2764704565896866062747363 / 7920956453832412750000, 22665959310141717156219429 / 63367651630659302000000),
   Finite (147042753642939063601177 / 417348104357232250000, 331605657191128716848391 / 3338784834857858000000),
   Finite (14878351230192441780937363 / 17957705192232412750000, 42688201702783180887939429 / 143661641537859302000000),
   Finite (784603104395337785611177 / 945598037957232250000, 1385407888382784702728391 / 7564784303657858000000),
   Finite (3040343213696505217149121 / 5973587641170804250000, 14029510241905171328873143 / 47788701129366434000000),
   Finite (1016681932712054644124707 / 1992157828051934750000, 2858119878022804716724381 / 15937262624415478000000)]"
  by (simp add: corners2D_new corners3D_Near project_def P_value)

lemma corners2D_Far: "mCorners2D (Instance_new rowFar) =
  [Finite (40040778809347719905792363 / 44012615416480412750000, 94086393848876552998959429 / 352100923331843302000000),
   Finite (40069886562666696051467363 / 44021272945435412750000, 77720942025366281462859429 / 352170183563483302000000),
   Finite (17011492452936015387832363 / 43864846341600412750000, 91687709940605885393679429 / 350918770732803302000000),
   Finite (17040600206254991533507363 / 43873503870555412750000, 75322258117095613857579429 / 350988030964443302000000),
   Finite (46397103884540369494492363 / 54012421886160412750000, 113508965264450349829359429 / 432099375089283302000000),
   Finite (46426211637859345640167363 / 54021079415115412750000, 97143513440940078293259429 / 432168635320923302000000),
   Finite (7789272509376221658844121 / 17954884270426804250000, 37036760452059894074693143 / 143639074163414434000000),
   Finite (7798975093815880374069121 / 17957770113411804250000, 31581609844223136895993143 / 143662160907294434000000)]"
  by (simp add: corners2D_new corners3D_Far project_def P_value)

lemma visible_Near: "isCornersInImage (Instance_new rowNear) 1280 480"
  by (simp add: isCornersInImage_def corners3D_Near corners2D_Near)

lemma visible_Far: "isCornersInImage (Instance_new rowFar) 1280 480"
  by (simp add: isCornersInImage_def corners3D_Far corners2D_Far)

lemma points_Near: "maskPoints (Instance_new rowNear) =
   Some [(1071, 365), (1073, 108), (349, 358), (352, 99), (829, 297), (830, 183), (509, 294), (510, 179)]"
  by (simp add: maskPoints_def corners2D_Near static_cast_int_def)

lemma points_Far: "maskPoints (Instance_new rowFar) =
   Some [(910, 267), (910, 221), (388, 261), (388, 215), (859, 263), (859, 225), (434, 258), (434, 220)]"
  by (simp add: maskPoints_def corners2D_Far static_cast_int_def)

lemma dist_Near: "mDist (Instance_new rowNear) = 5"
proof -
  have "(5::real) \<le> sqrt (397 / 5)" by (rule real_le_rsqrt) simp
  then show ?thesis by (simp add: dist_new corners3D_Near)
qed

lemma dist_Far: "mDist (Instance_new rowFar) = 20"
proof -
  have "(20::real) \<le> sqrt (2848 / 5)" by (rule real_le_rsqrt) simp
  then show ?thesis by (simp add: dist_new corners3D_Far)
qed

lemma dist_A: "mDist (Instance_new (rowA c t)) = sqrt 65"
  by (simp add: dist_new corners3D_new rowA_def localCorners_list transform_eq)

lemma sqrt65: "\<bar>sqrt 65 - 8.06\<bar> < (0.01::real)"
proof -
  have "(8.06::real) < sqrt 65" by (rule real_less_rsqrt) (simp add: power2_eq_square)
  moreover have "sqrt 65 < (8.07::real)" by (rule real_less_lsqrt) (simp_all add: power2_eq_square)
  ultimately show ?thesis by simp
qed

lemma sil_Near: "(640, 240) \<in> silhouette boxFill 480 1280 (Instance_new rowNear)"
  by (simp add: silhouette_def points_Near boxFill_def)

lemma sil_Far: "(640, 240) \<in> silhouette boxFill 480 1280 (Instance_new rowFar)"
  by (simp add: silhouette_def points_Far boxFill_def)

lemma sil_out_Near: "(0, 0) \<notin> silhouette boxFill 480 1280 (Instance_new rowNear)"
  by (simp add: silhouette_def points_Near boxFill_def)

lemma sil_out_Far: "(0, 0) \<notin> silhouette boxFill 480 1280 (Instance_new rowFar)"
  by (simp add: silhouette_def points_Far boxFill_def)

lemma corners3D_Close: "mCorners3D (Instance_new rowClose) =
  [(3 / 2, - 1, 1), (3 / 2, - 1, 2), (3 / 2, 1, 1), (3 / 2, 1, 2),
   (13 / 2, - 1, 1), (13 / 2, - 1, 2), (13 / 2, 1, 1), (13 / 2, 1, 2)]"
  by (simp add: corners3D_new rowClose_def localCorners_list transform_eq)

section \<open>The visibility test\<close>

text \<open>
  C2. For a constructed instance \<open>isCornersInImage\<close> answers true exactly when each of the
  eight corners has finite projected coordinates with \<open>0 < u < imgW\<close> and
  \<open>0 < v < imgH\<close> and a forward coordinate \<open>x > 2\<close> in the world frame. In particular
  one corner with \<open>x \<le> 2\<close> makes the answer false, whatever the image size.
\<close>

theorem isCornersInImage_iff:
  "(isCornersInImage (Instance_new r) imgW imgH \<longleftrightarrow>
     (\<forall>i<8. \<exists>u v. mCorners2D (Instance_new r) ! i = Finite (u, v)
        \<and> 0 < u \<and> u < real_of_int imgW \<and> 0 < v \<and> v < real_of_int imgH
        \<and> 2 < fst (mCorners3D (Instance_new r) ! i)))
   \<and> ((\<exists>i<8. fst (mCorners3D (Instance_new r) ! i) \<le> 2)
        \<longrightarrow> \<not> isCornersInImage (Instance_new r) imgW imgH)"
proof -
  have len: "length (mCorners2D (Instance_new r)) = length (mCorners3D (Instance_new r))"
    by (simp add: length_corners2D length_corners3D)
  have main: "isCornersInImage (Instance_new r) imgW imgH \<longleftrightarrow>
     (\<forall>i<8. \<exists>u v. mCorners2D (Instance_new r) ! i = Finite (u, v)
        \<and> 0 < u \<and> u < real_of_int imgW \<and> 0 < v \<and> v < real_of_int imgH
        \<and> 2 < fst (mCorners3D (Instance_new r) ! i))"
    unfolding isCornersInImage_nth[OF len] length_corners3D inImage_iff by blast
  moreover have "\<not> isCornersInImage (Instance_new r) imgW imgH"
    if "\<exists>i<8. fst (mCorners3D (Instance_new r) ! i) \<le> 2"
    using that unfolding main by force
  ultimately show ?thesis by blast
qed


text \<open>On the concrete rows: \<open>rowNear\<close> is visible in a \<open>1280 \<times> 480\<close> image, and \<open>rowClose\<close>,
  whose corner 0 has \<open>x = 1.5\<close>, is not.\<close>

theorem isCornersInImage_iff_witness:
  "isCornersInImage (Instance_new rowNear) 1280 480
   \<and> (\<exists>u v. mCorners2D (Instance_new rowNear) ! 0 = Finite (u, v)
         \<and> 0 < u \<and> u < 1280 \<and> 0 < v \<and> v < 480 \<and> 2 < fst (mCorners3D (Instance_new rowNear) ! 0))
   \<and> fst (mCorners3D (Instance_new rowClose) ! 0) \<le> 2
   \<and> \<not> isCornersInImage (Instance_new rowClose) 1280 480"
proof -
  have c: "fst (mCorners3D (Instance_new rowClose) ! 0) \<le> 2"
    by (simp add: corners3D_Close)
  then have "\<exists>i<8. fst (mCorners3D (Instance_new rowClose) ! i) \<le> 2"
    by (intro exI[of _ 0]) simp
  with isCornersInImage_iff[of rowClose 1280 480]
  have n: "\<not> isCornersInImage (Instance_new rowClose) 1280 480" by blast
  from isCornersInImage_iff[of rowNear 1280 480] visible_Near
  have "\<forall>i<8. \<exists>u v. mCorners2D (Instance_new rowNear) ! i = Finite (u, v)
        \<and> 0 < u \<and> u < real_of_int 1280 \<and> 0 < v \<and> v < real_of_int 480
        \<and> 2 < fst (mCorners3D (Instance_new rowNear) ! i)" by blast
  then have "\<exists>u v. mCorners2D (Instance_new rowNear) ! 0 = Finite (u, v)
        \<and> 0 < u \<and> u < real_of_int 1280 \<and> 0 < v \<and> v < real_of_int 480
        \<and> 2 < fst (mCorners3D (Instance_new rowNear) ! 0)" by (elim allE[of _ 0]) simp
  then show ?thesis using visible_Near c n by simp
qed

section \<open>The distance\<close>

text \<open>
  C5. The distance of a constructed instance is the least value, over its eight
  corners \<open>(x, y, z)\<close> in the world frame, of \<open>sqrt (x\<^sup>2 + y\<^sup>2)\<close>, the Euclidean norm of
  the corner's ground-plane coordinates: it is that value at one of the corners and
  at most that value at every corner. For centre \<open>(10, 0, 1)\<close>, extents \<open>(4, 2, 1.5)\<close>
  and yaw 0 it is \<open>sqrt ((10 - 2)\<^sup>2 + 1\<^sup>2)\<close>, which is 8.06 to within 0.01.
\<close>

theorem dist_is_min_norm:
  "mDist (Instance_new r) =
      Min ((\<lambda>(x, y, z). sqrt (x\<^sup>2 + y\<^sup>2)) ` set (mCorners3D (Instance_new r)))
   \<and> (\<exists>x y z. (x, y, z) \<in> set (mCorners3D (Instance_new r))
          \<and> mDist (Instance_new r) = sqrt (x\<^sup>2 + y\<^sup>2))
   \<and> list_all (\<lambda>(x, y, z). mDist (Instance_new r) \<le> sqrt (x\<^sup>2 + y\<^sup>2))
        (mCorners3D (Instance_new r))
   \<and> length (mCorners3D (Instance_new r)) = 8
   \<and> mDist (Instance_new (rowA c t)) = sqrt ((10 - 2)\<^sup>2 + 1\<^sup>2)
   \<and> \<bar>mDist (Instance_new (rowA c t)) - 8.06\<bar> < 0.01"
proof -
  let ?cs = "mCorners3D (Instance_new r)"
  let ?n = "\<lambda>(x, y, z). sqrt (x\<^sup>2 + y\<^sup>2)"
  have n: "norm_xy = ?n"
    by (rule ext) (auto simp: power2_eq_square)
  have ne: "?cs \<noteq> []" using length_corners3D[of r] by auto
  then have "map norm_xy ?cs \<noteq> []" by simp
  then have "mDist (Instance_new r) = Min (set (map norm_xy ?cs))"
    unfolding dist_new by (rule minCoeff_Min)
  then have m: "mDist (Instance_new r) = Min (?n ` set ?cs)"
    by (simp add: n)
  have fin: "finite (?n ` set ?cs)" and nem: "?n ` set ?cs \<noteq> {}"
    using ne by simp_all
  have "Min (?n ` set ?cs) \<in> ?n ` set ?cs"
    using fin nem by (rule Min_in)
  then obtain q where q: "q \<in> set ?cs" "Min (?n ` set ?cs) = ?n q" by auto
  obtain x y z where "q = (x, y, z)" by (cases q)
  with q m have e: "\<exists>x y z. (x, y, z) \<in> set ?cs \<and> mDist (Instance_new r) = sqrt (x\<^sup>2 + y\<^sup>2)"
    by auto
  have "mDist (Instance_new r) \<le> ?n q'" if "q' \<in> set ?cs" for q'
    unfolding m using fin that by (intro Min_le) auto
  then have a': "list_all (\<lambda>(x, y, z). mDist (Instance_new r) \<le> sqrt (x\<^sup>2 + y\<^sup>2)) ?cs"
    by (auto simp: list_all_iff)
  have d1: "mDist (Instance_new (rowA c t)) = sqrt ((10 - 2)\<^sup>2 + 1\<^sup>2)"
    by (simp add: dist_A)
  have d2: "\<bar>mDist (Instance_new (rowA c t)) - 8.06\<bar> < 0.01"
    using sqrt65 by (simp add: dist_A)
  show ?thesis
    by (intro conjI m e a' length_corners3D d1 d2)
qed

section \<open>The order of the corners\<close>

lemma less8_cases: "i < 8 \<Longrightarrow> i = 0 \<or> i = 1 \<or> i = 2 \<or> i = 3 \<or> i = 4 \<or> i = 5 \<or> i = 6 \<or> i = (7::nat)"
  by arith

text \<open>
  C6. The eight corners are enumerated so that the corner with signs \<open>(sx, sy, sz)\<close> has
  index \<open>4 \<cdot> (sx > 0) + 2 \<cdot> (sy > 0) + (sz > 0)\<close>: at that index the unit corner is
  \<open>(sx, sy, sz)\<close>, the local offset is \<open>(sx \<cdot> l/2, sy \<cdot> w/2, sz \<cdot> h/2)\<close>, and the corner
  in the world frame is the image of that offset under the rotation and translation
  of the instance, for every centre and yaw. With extents \<open>\<ge> 0\<close>, the local offset of
  corner 0 is the least of the eight along each of the three axes.
\<close>

theorem corner_order:
  "length unitCorners = 8
   \<and> (sx \<in> {-1, 1} \<and> sy \<in> {-1, 1} \<and> sz \<in> {-1, 1} \<longrightarrow>
        cornerIndex sx sy sz < 8
      \<and> unitCorners ! cornerIndex sx sy sz = (sx, sy, sz)
      \<and> localCorners (r_l r, r_w r, r_h r) ! cornerIndex sx sy sz
           = (sx * (r_l r / 2), sy * (r_w r / 2), sz * (r_h r / 2))
      \<and> mCorners3D (Instance_new r) ! cornerIndex sx sy sz
           = transform (r_x r, r_y r, r_z r) (r_yaw r)
               (sx * (r_l r / 2), sy * (r_w r / 2), sz * (r_h r / 2)))
   \<and> (0 \<le> r_l r \<and> 0 \<le> r_w r \<and> 0 \<le> r_h r \<and> i < 8 \<longrightarrow>
        fst (localCorners (r_l r, r_w r, r_h r) ! 0) \<le> fst (localCorners (r_l r, r_w r, r_h r) ! i)
      \<and> fst (snd (localCorners (r_l r, r_w r, r_h r) ! 0)) \<le> fst (snd (localCorners (r_l r, r_w r, r_h r) ! i))
      \<and> snd (snd (localCorners (r_l r, r_w r, r_h r) ! 0)) \<le> snd (snd (localCorners (r_l r, r_w r, r_h r) ! i)))"
proof (intro conjI impI)
  show "length unitCorners = 8" by (simp add: unitCorners_list)
next
  assume s: "sx \<in> {-1, 1} \<and> sy \<in> {-1, 1} \<and> sz \<in> {-1, 1}"
  show "cornerIndex sx sy sz < 8" by (simp add: cornerIndex_def)
  from s show "unitCorners ! cornerIndex sx sy sz = (sx, sy, sz)"
    by (auto simp: cornerIndex_def unitCorners_list)
  from s show "localCorners (r_l r, r_w r, r_h r) ! cornerIndex sx sy sz
           = (sx * (r_l r / 2), sy * (r_w r / 2), sz * (r_h r / 2))"
    by (auto simp: cornerIndex_def localCorners_list)
  from s show "mCorners3D (Instance_new r) ! cornerIndex sx sy sz
           = transform (r_x r, r_y r, r_z r) (r_yaw r)
               (sx * (r_l r / 2), sy * (r_w r / 2), sz * (r_h r / 2))"
    by (auto simp: cornerIndex_def localCorners_list corners3D_new)
next
  assume a: "0 \<le> r_l r \<and> 0 \<le> r_w r \<and> 0 \<le> r_h r \<and> i < 8"
  then have i: "i = 0 \<or> i = 1 \<or> i = 2 \<or> i = 3 \<or> i = 4 \<or> i = 5 \<or> i = 6 \<or> i = 7"
    using less8_cases by blast
  from a i show "fst (localCorners (r_l r, r_w r, r_h r) ! 0) \<le> fst (localCorners (r_l r, r_w r, r_h r) ! i)"
    by (auto simp: localCorners_list)
  from a i show "fst (snd (localCorners (r_l r, r_w r, r_h r) ! 0)) \<le> fst (snd (localCorners (r_l r, r_w r, r_h r) ! i))"
    by (auto simp: localCorners_list)
  from a i show "snd (snd (localCorners (r_l r, r_w r, r_h r) ! 0)) \<le> snd (snd (localCorners (r_l r, r_w r, r_h r) ! i))"
    by (auto simp: localCorners_list)
qed

text \<open>The signs \<open>(1, -1, 1)\<close> have index 5, shown on \<open>rowNear\<close>.\<close>

theorem corner_order_witness:
  "cornerIndex 1 (-1) 1 = 5
   \<and> unitCorners ! 5 = (1, -1, 1)
   \<and> localCorners (4, 2.8, 1) ! 5 = (2, - 1.4, 0.5)
   \<and> mCorners3D (Instance_new rowNear) ! 5 = transform (6.8, 0, 1.5) 0 (2, - 1.4, 0.5)
   \<and> fst (localCorners (4, 2.8, 1) ! 0) \<le> fst (localCorners (4, 2.8, 1) ! 5)
   \<and> fst (snd (localCorners (4, 2.8, 1) ! 0)) \<le> fst (snd (localCorners (4, 2.8, 1) ! 5))
   \<and> snd (snd (localCorners (4, 2.8, 1) ! 0)) \<le> snd (snd (localCorners (4, 2.8, 1) ! 5))"
proof -
  have i: "cornerIndex 1 (-1) 1 = 5" by (simp add: cornerIndex_def)
  have r: "r_l rowNear = 4" "r_w rowNear = 2.8" "r_h rowNear = 1"
     "r_x rowNear = 6.8" "r_y rowNear = 0" "r_z rowNear = 1.5" "r_yaw rowNear = 0"
    by (simp_all add: rowNear_def)
  from corner_order[of 1 "-1" 1 rowNear 5]
  show ?thesis unfolding i r by (simp add: localCorners_list)
qed

section \<open>The sort of the instance vector\<close>

text \<open>
  C4, as the code has it. The sorted vector is a permutation of the instance vector in
  ascending order of distance: its sequence of distances is the sorted sequence of the
  distances. When the distances are pairwise different this fixes the vector; among
  instances with equal distances \<^verbatim>\<open>std::sort\<close> promises no order.
\<close>

theorem sort_by_distance:
  assumes "std_sort dist_less xs ys"
  shows "mset ys = mset xs \<and> sorted (map mDist ys) \<and> map mDist ys = sort (map mDist xs)
     \<and> (distinct (map mDist xs) \<longrightarrow> ys = sort_key mDist xs)"
proof -
  note s = sorted_by_dist[OF assms]
  have "mset (map mDist ys) = mset (map mDist xs)" using s(1) by simp
  then have m: "sort (map mDist xs) = map mDist ys"
    using s(2) by (rule properties_for_sort)
  have d: "ys = sort_key mDist xs" if dist: "distinct (map mDist xs)"
  proof -
    have dy: "distinct (map mDist ys)"
      using dist \<open>mset (map mDist ys) = mset (map mDist xs)\<close> by (metis mset_eq_imp_distinct_iff)
    have sx: "set ys = set xs" using s(1) by (rule mset_eq_setD)
    have "filter (\<lambda>x. mDist k = mDist x) ys = filter (\<lambda>x. mDist k = mDist x) xs" if "k \<in> set ys" for k
      using that filter_key_singleton[OF dist, of k] filter_key_singleton[OF dy, of k] sx by simp
    with s have "sort_key mDist xs = ys" by (intro properties_for_sort_key) auto
    then show ?thesis by simp
  qed
  show ?thesis using s m d by simp
qed

lemma sorted_Near_Far:
  "std_sort dist_less [Instance_new rowFar, Instance_new rowNear] [Instance_new rowNear, Instance_new rowFar]"
  by (simp add: std_sort_def dist_less_def dist_Near dist_Far)

text \<open>The far row before the near row: after the sort the near instance comes first.\<close>

theorem sort_by_distance_witness:
  "std_sort dist_less [Instance_new rowFar, Instance_new rowNear] [Instance_new rowNear, Instance_new rowFar]
   \<and> map mDist [Instance_new rowNear, Instance_new rowFar] = [5, 20]
   \<and> sort (map mDist [Instance_new rowFar, Instance_new rowNear]) = [5, 20]
   \<and> sort_key mDist [Instance_new rowFar, Instance_new rowNear] = [Instance_new rowNear, Instance_new rowFar]"
proof -
  have d: "distinct (map mDist [Instance_new rowFar, Instance_new rowNear])"
    by (simp add: dist_Near dist_Far)
  from sort_by_distance[OF sorted_Near_Far] d sorted_Near_Far
  show ?thesis by (simp add: dist_Near dist_Far)
qed

lemma geometry_ids_dist:
  "mDist (Instance_new (r\<lparr>r_trackId := t\<rparr>)) = mDist (Instance_new r)"
  by (simp add: Instance_new_def Instance_with_def Let_def)

lemma trackId_new: "mTrackId (Instance_new r) = r_trackId r"
  by (simp add: Instance_new_def Instance_with_def Let_def)

text \<open>
  C4, as the claim has it, fails: \<open>rowNear\<close> and \<open>rowTwin\<close> pass the region-of-interest
  filter and have the same distance, and the contract of \<^verbatim>\<open>std::sort\<close> admits the
  result in which the later row comes first, which is not stable.
\<close>

theorem sort_not_stable:
  "collect [rowNear, rowTwin] [] = [Instance_new rowNear, Instance_new rowTwin]
   \<and> mDist (Instance_new rowNear) = mDist (Instance_new rowTwin)
   \<and> std_sort dist_less [Instance_new rowNear, Instance_new rowTwin]
        [Instance_new rowTwin, Instance_new rowNear]
   \<and> [Instance_new rowTwin, Instance_new rowNear] \<noteq> [Instance_new rowNear, Instance_new rowTwin]
   \<and> \<not> stable_by_dist [Instance_new rowNear, Instance_new rowTwin]
          [Instance_new rowTwin, Instance_new rowNear]"
proof -
  have c: "collect [rowNear, rowTwin] [] = [Instance_new rowNear, Instance_new rowTwin]"
    by (simp add: collect_append rowNear_def rowTwin_def)
  have d: "mDist (Instance_new rowNear) = mDist (Instance_new rowTwin)"
    unfolding rowTwin_def by (rule geometry_ids_dist[symmetric])
  have "mTrackId (Instance_new rowNear) \<noteq> mTrackId (Instance_new rowTwin)"
    by (simp add: trackId_new rowNear_def rowTwin_def)
  then have n: "Instance_new rowTwin \<noteq> Instance_new rowNear" by auto
  have s: "std_sort dist_less [Instance_new rowNear, Instance_new rowTwin]
        [Instance_new rowTwin, Instance_new rowNear]"
    by (simp add: std_sort_def dist_less_def d)
  have u: "\<not> stable_by_dist [Instance_new rowNear, Instance_new rowTwin]
          [Instance_new rowTwin, Instance_new rowNear]"
    using n by (simp add: stable_by_dist_def d)
  show ?thesis using c d n s u by simp
qed

section \<open>The projection operator\<close>
















section \<open>The mask of a frame\<close>

lemma frame_order:
  assumes f: "frame cv objs cols rows instVec canvas"
    and a: "a \<in> set instVec" and b: "b \<in> set instVec" and lt: "mDist a < mDist b"
  shows "(\<exists>pre mid post. instVec = pre @ a # mid @ b # post)"
    and "\<not> (\<exists>pre mid post. instVec = pre @ b # mid @ a # post)"
proof -
  have srt: "sorted (map mDist instVec)" using f by (rule frame_sorted)
  from a obtain pre rest where sp: "instVec = pre @ a # rest"
    by (auto dest: split_list)
  have "b \<notin> set pre"
  proof
    assume "b \<in> set pre"
    with srt sp have "mDist b \<le> mDist a" by (auto simp: sorted_append)
    with lt show False by simp
  qed
  moreover have "b \<noteq> a" using lt by auto
  ultimately have "b \<in> set rest" using b sp by auto
  then obtain mid post where "rest = mid @ b # post" by (auto dest: split_list)
  with sp show "\<exists>pre mid post. instVec = pre @ a # mid @ b # post" by blast
  show "\<not> (\<exists>pre mid post. instVec = pre @ b # mid @ a # post)"
  proof
    assume "\<exists>pre mid post. instVec = pre @ b # mid @ a # post"
    then obtain pre mid post where "instVec = pre @ b # mid @ a # post" by blast
    with srt have "mDist b \<le> mDist a" by (auto simp: sorted_append)
    with lt show False by simp
  qed
qed

lemma frame_canvas:
  assumes "frame cv objs cols rows instVec canvas"
  shows "getMasks cv instVec (zeros rows cols) = Some canvas"
    and "m_rows canvas = rows" and "m_cols canvas = cols"
    and "m_at canvas p = (if \<exists>i\<in>set instVec. p \<in> silhouette cv rows cols i then 1 else 0)"
proof -
  show m: "getMasks cv instVec (zeros rows cols) = Some canvas"
    using assms by (auto elim: frame.cases)
  note g = getMasks_at[OF m]
  show "m_rows canvas = rows" "m_cols canvas = cols" using g(1,2) by (simp_all add: zeros_def)
  show "m_at canvas p = (if \<exists>i\<in>set instVec. p \<in> silhouette cv rows cols i then 1 else 0)"
    using g(3)[of p] by (simp add: zeros_def)
qed

lemma frame_markers:
  assumes f: "frame cv objs cols rows instVec canvas"
    and b: "b \<in> set instVec" and p: "p \<in> silhouette cv rows cols b"
  shows "\<exists>canvas' c. getMasksWith cv marker instVec (zeros rows cols) = Some canvas'
      \<and> c \<in> set instVec \<and> p \<in> silhouette cv rows cols c \<and> mDist b \<le> mDist c
      \<and> m_at canvas' p = marker c"
proof -
  let ?cov = "\<lambda>i. p \<in> silhouette cv rows cols i"
  let ?cs = "filter ?cov instVec"
  have m: "getMasksWith cv (\<lambda>i. 1) instVec (zeros rows cols) = Some canvas"
    using frame_canvas(1)[OF f] by (simp add: getMasks_def)
  have "\<exists>pts. maskPoints i = Some pts" if "i \<in> set instVec" for i
    using m that by (rule getMasksWith_points)
  then obtain canvas' where c': "getMasksWith cv marker instVec (zeros rows cols) = Some canvas'"
    using getMasksWith_total by blast
  have bc: "b \<in> set ?cs" using b p by simp
  have ne: "?cs \<noteq> []" using b p by (auto simp: filter_empty_conv)
  then obtain c cs where cs: "?cs = c # cs" by (cases ?cs) auto
  have "m_at canvas' p = marker (last ?cs)"
    using getMasksWith_at[OF c', of p] cs by (simp add: zeros_def)
  moreover have "last ?cs \<in> set ?cs" using ne by (rule last_in_set)
  moreover have "sorted (map mDist ?cs)"
    using frame_sorted[OF f] by (simp add: sorted_map sorted_wrt_filter)
  then have "mDist b \<le> mDist (last ?cs)" using bc by (rule sorted_last_max)
  ultimately show ?thesis using c' by auto
qed

text \<open>
  C7. The instances that survive a frame are rasterised in ascending order of
  distance, each write replacing what it covers. For two surviving instances \<open>a\<close> and
  \<open>b\<close> with \<open>a\<close> nearer than \<open>b\<close> and a pixel \<open>p\<close> in the silhouettes of both: \<open>a\<close> stands
  before \<open>b\<close> in the vector and never after; the mask of the frame has the marker 1 at
  \<open>p\<close>; and when the loop of the frame is run with a marker of its own for each
  instance, the value at \<open>p\<close> is the marker of a covering instance at least as far as
  \<open>b\<close>, hence farther than \<open>a\<close>. When \<open>a\<close> and \<open>b\<close> are the only survivors it is the
  marker of \<open>b\<close>. The last conjunct is the rule of combination of two fills with any
  two colours: the later one wins where the polygons overlap.
\<close>

theorem mask_far_over_near:
  assumes "frame cv objs cols rows instVec canvas"
    and "a \<in> set instVec" and "b \<in> set instVec" and "mDist a < mDist b"
    and "p \<in> silhouette cv rows cols a" and "p \<in> silhouette cv rows cols b"
  shows "sorted (map mDist instVec)
     \<and> (\<exists>pre mid post. instVec = pre @ a # mid @ b # post)
     \<and> \<not> (\<exists>pre mid post. instVec = pre @ b # mid @ a # post)
     \<and> getMasks cv instVec (zeros rows cols) = Some canvas
     \<and> getMasksWith cv (\<lambda>i. 1) instVec (zeros rows cols) = Some canvas
     \<and> m_at canvas p = 1
     \<and> (\<exists>canvas' c. getMasksWith cv marker instVec (zeros rows cols) = Some canvas'
           \<and> c \<in> set instVec \<and> p \<in> silhouette cv rows cols c
           \<and> mDist a < mDist c \<and> mDist b \<le> mDist c \<and> m_at canvas' p = marker c)
     \<and> (set instVec = {a, b} \<longrightarrow>
          (\<exists>canvas'. getMasksWith cv marker instVec (zeros rows cols) = Some canvas'
             \<and> m_at canvas' p = marker b))
     \<and> m_at (fillConvexPoly cv (fillConvexPoly cv img poly1 c1) poly2 c2) q =
         (if q \<in> filled cv (m_rows img) (m_cols img) poly2 then c2
          else if q \<in> filled cv (m_rows img) (m_cols img) poly1 then c1
          else m_at img q)"
proof -
  note o = frame_order[OF assms(1-4)]
  note c = frame_canvas[OF assms(1)]
  have w: "getMasksWith cv (\<lambda>i. 1) instVec (zeros rows cols) = Some canvas"
    using c(1) by (simp add: getMasks_def)
  have one: "m_at canvas p = 1" using c(4)[of p] assms(3,6) by auto
  from frame_markers[OF assms(1,3,6), of marker]
  obtain canvas' c' where k: "getMasksWith cv marker instVec (zeros rows cols) = Some canvas'"
      "c' \<in> set instVec" "p \<in> silhouette cv rows cols c'" "mDist b \<le> mDist c'"
      "m_at canvas' p = marker c'"
    by blast
  have lt: "mDist a < mDist c'" using assms(4) k(4) by simp
  have mk: "\<exists>canvas' c. getMasksWith cv marker instVec (zeros rows cols) = Some canvas'
           \<and> c \<in> set instVec \<and> p \<in> silhouette cv rows cols c
           \<and> mDist a < mDist c \<and> mDist b \<le> mDist c \<and> m_at canvas' p = marker c"
    using k lt by blast
  have two: "\<exists>canvas'. getMasksWith cv marker instVec (zeros rows cols) = Some canvas'
             \<and> m_at canvas' p = marker b" if "set instVec = {a, b}"
  proof -
    from that k(2) lt have "c' = b" by auto
    with k show ?thesis by blast
  qed
  have fl: "m_at (fillConvexPoly cv (fillConvexPoly cv img poly1 c1) poly2 c2) q =
         (if q \<in> filled cv (m_rows img) (m_cols img) poly2 then c2
          else if q \<in> filled cv (m_rows img) (m_cols img) poly1 then c1
          else m_at img q)"
    by (simp add: fillConvexPoly_def)
  show ?thesis
    using o c(1) w one mk two fl frame_sorted[OF assms(1)] by blast
qed

text \<open>
  C10. Every frame yields a mask, and in every mask it yields each pixel is 0 or 1:
  1 exactly on the silhouettes of the surviving instances and 0 elsewhere; the mask
  has the size of the image, and with no surviving instance it is the all-zero mask.
\<close>

theorem mask_values:
  "(\<exists>instVec canvas. frame cv objs cols rows instVec canvas)
   \<and> (\<forall>instVec canvas. frame cv objs cols rows instVec canvas \<longrightarrow>
         m_rows canvas = rows \<and> m_cols canvas = cols
       \<and> (\<forall>p. m_at canvas p = 0 \<or> m_at canvas p = 1)
       \<and> (\<forall>p. (\<exists>i\<in>set instVec. p \<in> silhouette cv rows cols i) \<longrightarrow> m_at canvas p = 1)
       \<and> (\<forall>p. (\<forall>i\<in>set instVec. p \<notin> silhouette cv rows cols i) \<longrightarrow> m_at canvas p = 0)
       \<and> (instVec = [] \<longrightarrow> canvas = zeros rows cols))"
proof (intro conjI allI impI)
  show "\<exists>instVec canvas. frame cv objs cols rows instVec canvas" by (rule frame_total)
next
  fix instVec canvas assume f: "frame cv objs cols rows instVec canvas"
  note c = frame_canvas[OF f]
  show "m_rows canvas = rows" "m_cols canvas = cols" by (rule c)+
  show "m_at canvas p = 0 \<or> m_at canvas p = 1" for p using c(4)[of p] by simp
  show "m_at canvas p = 1" if "\<exists>i\<in>set instVec. p \<in> silhouette cv rows cols i" for p
    using c(4)[of p] that by simp
  show "m_at canvas p = 0" if "\<forall>i\<in>set instVec. p \<notin> silhouette cv rows cols i" for p
    using c(4)[of p] that by simp
  show "canvas = zeros rows cols" if "instVec = []"
    using c(1) that by (simp add: getMasks_def)
qed

lemma frame_empty: "frame cv [] cols rows [] (zeros rows cols)"
  by (rule frameI[where sortedVec = "[]"]) (simp_all add: std_sort_def erase_remove_if_def getMasks_def)

lemma frame_Near_Far:
  "\<exists>canvas. frame boxFill [rowFar, rowNear] 1280 480 [Instance_new rowNear, Instance_new rowFar] canvas"
proof -
  have c: "collect [rowFar, rowNear] [] = [Instance_new rowFar, Instance_new rowNear]"
    by (simp add: collect_append rowNear_def rowFar_def)
  have e: "[Instance_new rowNear, Instance_new rowFar] =
      erase_remove_if (\<lambda>x. \<not> isCornersInImage x 1280 480) [Instance_new rowNear, Instance_new rowFar]"
    by (simp add: erase_remove_if_def visible_Near visible_Far)
  obtain canvas where g: "getMasks boxFill [Instance_new rowNear, Instance_new rowFar] (zeros 480 1280) = Some canvas"
    by (simp add: getMasks_def getMaskWith_def points_Near points_Far)
  have "frame boxFill [rowFar, rowNear] 1280 480 [Instance_new rowNear, Instance_new rowFar] canvas"
    using sorted_Near_Far e g unfolding c[symmetric] by (rule frameI)
  then show ?thesis ..
qed

text \<open>
  A frame with the far row listed first; the distances are 5 and 20. Run with the
  distance of each instance as its marker, the loop leaves 20 at the common pixel.
\<close>

theorem mask_far_over_near_witness:
  "\<exists>canvas. frame boxFill [rowFar, rowNear] 1280 480 [Instance_new rowNear, Instance_new rowFar] canvas
     \<and> mDist (Instance_new rowNear) = 5 \<and> mDist (Instance_new rowFar) = 20
     \<and> (640, 240) \<in> silhouette boxFill 480 1280 (Instance_new rowNear)
     \<and> (640, 240) \<in> silhouette boxFill 480 1280 (Instance_new rowFar)
     \<and> getMasks boxFill [Instance_new rowNear, Instance_new rowFar] (zeros 480 1280) = Some canvas
     \<and> m_at canvas (640, 240) = 1
     \<and> (\<exists>canvas'. getMasksWith boxFill mDist [Instance_new rowNear, Instance_new rowFar]
            (zeros 480 1280) = Some canvas' \<and> m_at canvas' (640, 240) = 20)"
proof -
  from frame_Near_Far obtain canvas where
    f: "frame boxFill [rowFar, rowNear] 1280 480 [Instance_new rowNear, Instance_new rowFar] canvas" ..
  have lt: "mDist (Instance_new rowNear) < mDist (Instance_new rowFar)"
    by (simp add: dist_Near dist_Far)
  note t = mask_far_over_near[OF f _ _ lt sil_Near sil_Far, of mDist]
  have g: "getMasks boxFill [Instance_new rowNear, Instance_new rowFar] (zeros 480 1280) = Some canvas
     \<and> m_at canvas (640, 240) = 1"
    using t by simp
  have s: "set [Instance_new rowNear, Instance_new rowFar] = {Instance_new rowNear, Instance_new rowFar}"
    by simp
  have "\<exists>canvas'. getMasksWith boxFill mDist [Instance_new rowNear, Instance_new rowFar]
            (zeros 480 1280) = Some canvas' \<and> m_at canvas' (640, 240) = mDist (Instance_new rowFar)"
    using t s by blast
  then have k: "\<exists>canvas'. getMasksWith boxFill mDist [Instance_new rowNear, Instance_new rowFar]
            (zeros 480 1280) = Some canvas' \<and> m_at canvas' (640, 240) = 20"
    by (simp add: dist_Far)
  show ?thesis
    using f g k dist_Near dist_Far sil_Near sil_Far by blast
qed

text \<open>The same frame, and the frame without rows.\<close>

theorem mask_values_witness:
  "(\<exists>canvas. frame boxFill [rowFar, rowNear] 1280 480 [Instance_new rowNear, Instance_new rowFar] canvas
      \<and> m_rows canvas = 480 \<and> m_cols canvas = 1280
      \<and> m_at canvas (640, 240) = 1 \<and> m_at canvas (0, 0) = 0)
   \<and> frame boxFill [] 1280 480 [] (zeros 480 1280)"
proof -
  from frame_Near_Far obtain canvas where
    f: "frame boxFill [rowFar, rowNear] 1280 480 [Instance_new rowNear, Instance_new rowFar] canvas" ..
  from mask_values[of boxFill "[rowFar, rowNear]" 1280 480] f
  have v: "m_rows canvas = 480 \<and> m_cols canvas = 1280
       \<and> (\<forall>p. (\<exists>i\<in>set [Instance_new rowNear, Instance_new rowFar]. p \<in> silhouette boxFill 480 1280 i) \<longrightarrow> m_at canvas p = 1)
       \<and> (\<forall>p. (\<forall>i\<in>set [Instance_new rowNear, Instance_new rowFar]. p \<notin> silhouette boxFill 480 1280 i) \<longrightarrow> m_at canvas p = 0)"
    by blast
  have "m_at canvas (640, 240) = 1" using v sil_Near by auto
  moreover have "m_at canvas (0, 0) = 0" using v sil_out_Near sil_out_Far by auto
  ultimately show ?thesis using f v frame_empty by blast
qed

end
